theory Spec2Isabelle
  imports Main
begin

section \<open>Python library values used by app.py\<close>

subsection \<open>datetime and strftime\<close>

text \<open>
  A \<open>datetime\<close> object as \<open>datetime.now()\<close> returns it: the local wall-clock time,
  without a time zone. The class only builds values inside the ranges of
  \<open>valid_datetime\<close> (\<open>MINYEAR = 1\<close>, \<open>MAXYEAR = 9999\<close>).
\<close>

record datetime =
  year :: nat
  month :: nat
  day :: nat
  hour :: nat
  minute :: nat
  second :: nat
  microsecond :: nat

definition is_leap :: "nat \<Rightarrow> bool" where
  "is_leap y = (y mod 4 = 0 \<and> (y mod 100 \<noteq> 0 \<or> y mod 400 = 0))"

definition days_in_month :: "nat \<Rightarrow> nat \<Rightarrow> nat" where
  "days_in_month y m =
     (if m = 2 then (if is_leap y then 29 else 28)
      else if m = 4 \<or> m = 6 \<or> m = 9 \<or> m = 11 then 30 else 31)"

definition valid_datetime :: "datetime \<Rightarrow> bool" where
  "valid_datetime t =
     (1 \<le> year t \<and> year t \<le> 9999 \<and> 1 \<le> month t \<and> month t \<le> 12 \<and>
      1 \<le> day t \<and> day t \<le> days_in_month (year t) (month t) \<and>
      hour t < 24 \<and> minute t < 60 \<and> second t < 60 \<and> microsecond t < 1000000)"

text \<open>The character of the last decimal digit of a number.\<close>

definition digit :: "nat \<Rightarrow> char" where
  "digit n = ''0123456789'' ! (n mod 10)"

definition is_digit :: "char \<Rightarrow> bool" where
  "is_digit c = (c \<in> set ''0123456789'')"

text \<open>The decimal digits of a number, most significant first, without padding.\<close>

fun str_nat :: "nat \<Rightarrow> string" where
  "str_nat n = (if n < 10 then [digit n] else str_nat (n div 10) @ [digit (n mod 10)])"

declare str_nat.simps [simp del]

definition zfill :: "nat \<Rightarrow> string \<Rightarrow> string" where
  "zfill w s = replicate (w - length s) CHR ''0'' @ s"

text \<open>
  One conversion of a \<open>strftime\<close> format. CPython hands the format to the C
  library: \<open>%d\<close> is the day of the month and \<open>%m\<close> the month, each as a zero-padded
  decimal number of two digits; \<open>%Y\<close> is the year as a decimal number, which the GNU C
  library does not pad (the year 999 is written \<open>999\<close>). The format of app.py uses
  these three; \<open>%H\<close>, \<open>%M\<close>, \<open>%S\<close> and \<open>%%\<close> are there for completeness, and
  any other character after \<open>%\<close> is left in place.
\<close>

definition directive :: "datetime \<Rightarrow> char \<Rightarrow> string" where
  "directive t c =
     (if c = CHR ''d'' then zfill 2 (str_nat (day t))
      else if c = CHR ''m'' then zfill 2 (str_nat (month t))
      else if c = CHR ''Y'' then str_nat (year t)
      else if c = CHR ''H'' then zfill 2 (str_nat (hour t))
      else if c = CHR ''M'' then zfill 2 (str_nat (minute t))
      else if c = CHR ''S'' then zfill 2 (str_nat (second t))
      else if c = CHR ''%'' then ''%''
      else [CHR ''%'', c])"

fun strftime :: "datetime \<Rightarrow> string \<Rightarrow> string" where
  "strftime t (c # d # fmt) =
     (if c = CHR ''%'' then directive t d @ strftime t fmt else c # strftime t (d # fmt))"
| "strftime t fmt = fmt"

text \<open>Python's \<open>s in body\<close> on strings: \<open>s\<close> occurs in \<open>body\<close> as a contiguous run.\<close>

fun starts_with :: "string \<Rightarrow> string \<Rightarrow> bool" where
  "starts_with [] ys = True"
| "starts_with (x # xs) [] = False"
| "starts_with (x # xs) (y # ys) = (x = y \<and> starts_with xs ys)"

fun contains :: "string \<Rightarrow> string \<Rightarrow> bool" where
  "contains s [] = (s = [])"
| "contains s (c # cs) = (starts_with s (c # cs) \<or> contains s cs)"

text \<open>The shape \<open>DD/MM/YYYY\<close>: ten characters, digits around two slashes.\<close>

definition date_pattern :: "string \<Rightarrow> bool" where
  "date_pattern s =
     (case s of
        [d1, d2, s1, m1, m2, s2, y1, y2, y3, y4] \<Rightarrow>
          is_digit d1 \<and> is_digit d2 \<and> s1 = CHR ''/'' \<and> is_digit m1 \<and> is_digit m2 \<and>
          s2 = CHR ''/'' \<and> is_digit y1 \<and> is_digit y2 \<and> is_digit y3 \<and> is_digit y4
      | _ \<Rightarrow> False)"

section \<open>The process and its surroundings\<close>

text \<open>
  An exception travelling up the Python call stack. The first two are the failures of
  the templating collaborator; \<open>HTTPException code\<close> is the framework's own exception
  for an HTTP status (\<open>NotFound\<close> is 404, \<open>MethodNotAllowed\<close> 405, the routing
  redirect 308); \<open>OSError errno\<close> is a system call that failed; \<open>SystemExit code\<close> is
  \<open>sys.exit(code)\<close>.
\<close>

datatype error =
  TemplateNotFound string
  | TemplateRenderError string
  | HTTPException nat
  | KeyError string
  | TypeError
  | OSError nat
  | SystemExit nat

text \<open>
  What the process meets outside: the system clock (\<open>clock k\<close> is the local time
  the \<open>k\<close>-th reading returns, so that readings at different moments may differ), the
  environment variables, whether a host and port can be bound (\<open>port_free\<close>), and
  the address of the socket behind a file descriptor the process was started with
  (\<open>inherited_socket\<close>, given the descriptor as the text an environment variable holds:
  an error when the text is no number or the number no open socket).
\<close>

record system =
  clock :: "nat \<Rightarrow> datetime"
  environ :: "string \<Rightarrow> string option"
  port_free :: "string \<Rightarrow> nat \<Rightarrow> bool"
  inherited_socket :: "string \<Rightarrow> error + string \<times> nat"

text \<open>
  The effects the program can have: how often the clock was read, the calls made to the
  templating collaborator (template name and keyword arguments, in order), the address
  the HTTP server listens on, if it does, and the exception that left the module and
  ended the process, if one did.
\<close>

record world =
  clock_reads :: nat
  render_calls :: "(string \<times> (string \<times> string) list) list"
  listening :: "(string \<times> nat) option"
  uncaught :: "error option"

definition world0 :: world where
  "world0 = \<lparr>clock_reads = 0, render_calls = [], listening = None, uncaught = None\<rparr>"

definition datetime_now :: "system \<Rightarrow> world \<Rightarrow> datetime \<times> world" where
  "datetime_now sys w = (clock sys (clock_reads w), w\<lparr>clock_reads := Suc (clock_reads w)\<rparr>)"

section \<open>The collaborators\<close>

record response =
  status :: nat
  mimetype :: string
  body :: string

text \<open>
  A request as the WSGI server hands it to the application: \<open>meth\<close> is
  \<open>REQUEST_METHOD\<close>, \<open>path\<close> is \<open>PATH_INFO\<close>.
\<close>

record request =
  meth :: string
  path :: string
  query_string :: string
  headers :: "(string \<times> string) list"
  data :: string

text \<open>
  What app.py consumes and does not implement, taken as parameters:
  \<^item> \<open>render\<close>, the templating capability: a template name and a mapping of variable
    names to values give the rendered text, or a failure;
  \<^item> \<open>default_page\<close>, the body of the framework's stock page for an HTTP status;
  \<^item> \<open>send_static_file\<close>, the framework's answer for a file name of the application's
    static folder (the files are not among the sources).
\<close>

record collaborators =
  render :: "string \<Rightarrow> (string \<times> string) list \<Rightarrow> error + string"
  default_page :: "nat \<Rightarrow> string"
  send_static_file :: "string \<Rightarrow> error + response"

section \<open>Flask, as far as app.py calls it\<close>

text \<open>
  Flask and the URL map of Werkzeug under it are libraries, not code of the repository.
  This section gives the behaviour of the calls app.py makes (\<open>Flask(__name__)\<close>,
  \<open>app.route\<close>, \<open>render_template\<close>, \<open>app.run\<close>) and of the dispatch of a request,
  under the framework's default configuration. Response headers are left out.
\<close>

text \<open>The three global variables of app.py that \<open>home\<close> reads.\<close>

record module_globals =
  DEVOPS_STAGE :: string
  DEV_NAME :: string
  DEPLOY_DATE :: string

text \<open>What a view function returns: a string, or a response object.\<close>

datatype rv = Str string | Resp response

type_synonym view =
  "(string \<times> string) list \<Rightarrow> module_globals \<Rightarrow> collaborators \<Rightarrow> world \<Rightarrow> (error + rv) \<times> world"

record url_rule =
  rule_string :: string
  methods :: "string list"
  endpoint :: string
  provide_automatic_options :: bool

record flask =
  import_name :: string
  url_map :: "url_rule list"
  view_functions :: "string \<Rightarrow> view option"
  error_handler_spec :: "nat \<Rightarrow> (nat \<Rightarrow> response) option"

text \<open>\<open>str.upper\<close> on the letters that occur in an HTTP method.\<close>

definition upper_char :: "char \<Rightarrow> char" where
  "upper_char c =
     (case map_of (zip ''abcdefghijklmnopqrstuvwxyz'' ''ABCDEFGHIJKLMNOPQRSTUVWXYZ'') c of
        None \<Rightarrow> c
      | Some u \<Rightarrow> u)"

definition upper :: "string \<Rightarrow> string" where
  "upper s = map upper_char s"

text \<open>
  \<open>Flask.add_url_rule\<close>: without a \<open>methods\<close> argument a rule answers \<open>GET\<close>; the
  framework adds \<open>OPTIONS\<close> (answered by itself) unless the rule names it, and the URL
  map adds \<open>HEAD\<close> to every rule that has \<open>GET\<close>.
\<close>

definition add_url_rule ::
  "flask \<Rightarrow> string \<Rightarrow> string list option \<Rightarrow> string \<Rightarrow> view \<Rightarrow> flask" where
  "add_url_rule app r ms ep f =
     (let m0 = (case ms of None \<Rightarrow> [''GET''] | Some xs \<Rightarrow> map upper xs);
          auto = (''OPTIONS'' \<notin> set m0);
          m1 = (if auto then m0 @ [''OPTIONS''] else m0);
          m2 = (if ''GET'' \<in> set m1 \<and> ''HEAD'' \<notin> set m1 then m1 @ [''HEAD''] else m1)
      in app\<lparr>url_map := url_map app @
                 [\<lparr>rule_string = r, methods = m2, endpoint = ep,
                   provide_automatic_options = auto\<rparr>],
              view_functions := (view_functions app)(ep \<mapsto> f)\<rparr>)"

text \<open>
  The decorator \<open>@app.route(rule)\<close> above \<open>def name(): ...\<close>: the endpoint is the
  function's name.
\<close>

definition route :: "flask \<Rightarrow> string \<Rightarrow> string list option \<Rightarrow> string \<Rightarrow> view \<Rightarrow> flask" where
  "route app r ms name f = add_url_rule app r ms name f"

text \<open>The view Flask itself registers for the static folder.\<close>

definition static_view :: view where
  "static_view kwargs g fw w =
     (case map_of kwargs ''filename'' of
        None \<Rightarrow> (Inl TypeError, w)
      | Some fn \<Rightarrow> (map_sum id Resp (send_static_file fw fn), w))"

text \<open>
  \<open>Flask(import_name)\<close> with its default arguments: an application whose URL map
  already holds the rule of the static folder, and which has no error handlers.
\<close>

definition Flask :: "string \<Rightarrow> flask" where
  "Flask name =
     add_url_rule
       \<lparr>import_name = name, url_map = [], view_functions = Map.empty,
        error_handler_spec = Map.empty\<rparr>
       ''/static/<path:filename>'' None ''static'' static_view"

subsection \<open>Matching a request against the URL map\<close>

text \<open>
  Rule syntax as far as this URL map uses it: a rule without a converter matches the
  path equal to it; a rule that ends in one converter \<open><path:name>\<close> matches its static
  prefix followed by at least one character that is not a slash, and by anything after
  it. A rule with another converter matches nothing here.
\<close>

definition match_rule :: "string \<Rightarrow> string \<Rightarrow> (string \<times> string) list option" where
  "match_rule r p =
     (let pre = takeWhile (\<lambda>c. c \<noteq> CHR ''<'') r;
          conv = dropWhile (\<lambda>c. c \<noteq> CHR ''<'') r
      in if conv = [] then (if p = r then Some [] else None)
         else if starts_with ''<path:'' conv \<and> last conv = CHR ''>'' \<and> starts_with pre p then
           (let v = drop (length pre) p
            in if v \<noteq> [] \<and> hd v \<noteq> CHR ''/'' then Some [(butlast (drop 6 conv), v)] else None)
         else None)"

datatype match_result =
  Match url_rule "(string \<times> string) list"
  | RequestRedirect string
  | MethodNotAllowed
  | NotFound

text \<open>
  The first rule that matches path and method; \<open>seen\<close> records that some rule matched
  the path with other methods.
\<close>

fun find_rule :: "url_rule list \<Rightarrow> string \<Rightarrow> string \<Rightarrow> bool \<Rightarrow> match_result" where
  "find_rule [] p m seen = (if seen then MethodNotAllowed else NotFound)"
| "find_rule (r # rs) p m seen =
     (case match_rule (rule_string r) p of
        None \<Rightarrow> find_rule rs p m seen
      | Some args \<Rightarrow> if m \<in> set (methods r) then Match r args else find_rule rs p m True)"

text \<open>The path the URL map matches: \<open>PATH_INFO\<close> behind exactly one leading slash.\<close>

definition path_part :: "string \<Rightarrow> string" where
  "path_part p = (if p = [] then [] else CHR ''/'' # dropWhile (\<lambda>c. c = CHR ''/'') p)"

text \<open>Every run of slashes becomes one slash.\<close>

fun merge_slashes :: "string \<Rightarrow> string" where
  "merge_slashes (a # b # cs) =
     (if a = CHR ''/'' \<and> b = CHR ''/'' then merge_slashes (b # cs)
      else a # merge_slashes (b # cs))"
| "merge_slashes cs = cs"

text \<open>A rule without converters that is the path plus a trailing slash.\<close>

definition slash_required :: "url_rule list \<Rightarrow> string \<Rightarrow> string \<Rightarrow> bool" where
  "slash_required rules p m =
     list_ex (\<lambda>r. CHR ''<'' \<notin> set (rule_string r) \<and> rule_string r = p @ ''/'' \<and>
                  m \<in> set (methods r)) rules"

text \<open>
  \<open>MapAdapter.match\<close>: a rule for path and method; else a redirect to the path with a
  trailing slash or with runs of slashes merged, where that has a rule; else
  \<open>MethodNotAllowed\<close> when a rule matched the path under other methods, \<open>NotFound\<close>
  when none did.
\<close>

definition url_match :: "url_rule list \<Rightarrow> string \<Rightarrow> string \<Rightarrow> match_result" where
  "url_match rules path_info m =
     (let p = path_part path_info
      in case find_rule rules p m False of
           Match r args \<Rightarrow> Match r args
         | r1 \<Rightarrow>
             if slash_required rules p m then RequestRedirect (p @ ''/'')
             else (case find_rule rules (merge_slashes p) m (r1 = MethodNotAllowed) of
                     Match r args \<Rightarrow> RequestRedirect (merge_slashes p)
                   | r2 \<Rightarrow> r2))"

subsection \<open>Answering a request\<close>

definition make_response :: "rv \<Rightarrow> response" where
  "make_response v =
     (case v of Str s \<Rightarrow> \<lparr>status = 200, mimetype = ''text/html'', body = s\<rparr> | Resp r \<Rightarrow> r)"

definition default_response :: "collaborators \<Rightarrow> nat \<Rightarrow> response" where
  "default_response fw code =
     \<lparr>status = code, mimetype = ''text/html'', body = default_page fw code\<rparr>"

definition options_response :: response where
  "options_response = \<lparr>status = 200, mimetype = ''text/html'', body = []\<rparr>"

text \<open>
  An HTTP exception becomes the response a registered error handler makes of it, and the
  framework's stock response where the application registered none. Routing redirects
  never reach a handler.
\<close>

definition handle_http_exception :: "flask \<Rightarrow> collaborators \<Rightarrow> nat \<Rightarrow> response" where
  "handle_http_exception app fw code =
     (if code = 308 then default_response fw code
      else case error_handler_spec app code of
             None \<Rightarrow> default_response fw code
           | Some h \<Rightarrow> h code)"

text \<open>Any other exception that leaves a view is an internal server error.\<close>

definition handle_user_exception :: "flask \<Rightarrow> collaborators \<Rightarrow> error \<Rightarrow> response" where
  "handle_user_exception app fw e =
     (case e of
        HTTPException code \<Rightarrow> handle_http_exception app fw code
      | _ \<Rightarrow> (case error_handler_spec app 500 of
                None \<Rightarrow> default_response fw 500
              | Some h \<Rightarrow> h 500))"

definition dispatch_request ::
  "flask \<Rightarrow> module_globals \<Rightarrow> collaborators \<Rightarrow> request \<Rightarrow> world \<Rightarrow> (error + rv) \<times> world" where
  "dispatch_request app g fw req w =
     (case url_match (url_map app) (path req) (meth req) of
        Match r args \<Rightarrow>
          if provide_automatic_options r \<and> meth req = ''OPTIONS''
          then (Inr (Resp options_response), w)
          else (case view_functions app (endpoint r) of
                  None \<Rightarrow> (Inl (KeyError (endpoint r)), w)
                | Some f \<Rightarrow> f args g fw w)
      | RequestRedirect l \<Rightarrow> (Inl (HTTPException 308), w)
      | MethodNotAllowed \<Rightarrow> (Inl (HTTPException 405), w)
      | NotFound \<Rightarrow> (Inl (HTTPException 404), w))"

text \<open>The running process: the module's globals, its application object, the effects so far.\<close>

record process =
  globals :: module_globals
  app :: flask
  wld :: world

definition full_dispatch_request :: "collaborators \<Rightarrow> process \<Rightarrow> request \<Rightarrow> response \<times> world" where
  "full_dispatch_request fw p req =
     (case dispatch_request (app p) (globals p) fw req (wld p) of
        (Inr v, w) \<Rightarrow> (make_response v, w)
      | (Inl e, w) \<Rightarrow> (handle_user_exception (app p) fw e, w))"

text \<open>
  One request through the application: the request object holds the method in upper
  case, and the response goes out without its body when \<open>REQUEST_METHOD\<close> itself, as
  the server passed it, is \<open>HEAD\<close>.
\<close>

definition wsgi_app :: "collaborators \<Rightarrow> process \<Rightarrow> request \<Rightarrow> response \<times> process" where
  "wsgi_app fw p req =
     (let req' = req\<lparr>meth := upper (meth req)\<rparr>;
          (resp, w) = full_dispatch_request fw p req'
      in (if meth req = ''HEAD'' then resp\<lparr>body := []\<rparr> else resp, p\<lparr>wld := w\<rparr>))"

text \<open>The requests of a process lifetime, answered one after the other.\<close>

fun serve :: "collaborators \<Rightarrow> process \<Rightarrow> request list \<Rightarrow> response list \<times> process" where
  "serve fw p [] = ([], p)"
| "serve fw p (r # rs) =
     (let (resp, p') = wsgi_app fw p r;
          (resps, p'') = serve fw p' rs
      in (resp # resps, p''))"

text \<open>
  Werkzeug's development server, which \<open>Flask.run\<close> starts. \<open>make_server\<close> opens the
  listening socket: with no descriptor it binds the address given, and when that fails
  it prints the reason and calls \<open>sys.exit(1)\<close>; with a descriptor it takes over the
  socket behind it, whatever its address. \<open>run_simple\<close> passes a descriptor only in the
  child process of the reloader, which is recognised by the environment variable
  \<open>WERKZEUG_RUN_MAIN\<close> being \<open>true\<close> and reads the descriptor from
  \<open>os.environ["WERKZEUG_SERVER_FD"]\<close>. (The program asks for port 5000; port 0, for
  which the system picks one, is not modelled.)
\<close>

definition is_running_from_reloader :: "system \<Rightarrow> bool" where
  "is_running_from_reloader sys = (environ sys ''WERKZEUG_RUN_MAIN'' = Some ''true'')"

definition make_server ::
  "string \<Rightarrow> nat \<Rightarrow> string option \<Rightarrow> system \<Rightarrow> error + string \<times> nat" where
  "make_server host port fd sys =
     (case fd of
        None \<Rightarrow> if port_free sys host port then Inr (host, port) else Inl (SystemExit 1)
      | Some d \<Rightarrow> inherited_socket sys d)"

definition run_simple :: "string \<Rightarrow> nat \<Rightarrow> system \<Rightarrow> world \<Rightarrow> error + world" where
  "run_simple hostname port sys w =
     (case (if \<not> is_running_from_reloader sys then Inr None
            else (case environ sys ''WERKZEUG_SERVER_FD'' of
                    None \<Rightarrow> Inl (KeyError ''WERKZEUG_SERVER_FD'')
                  | Some d \<Rightarrow> Inr (Some d))) of
        Inl e \<Rightarrow> Inl e
      | Inr fd \<Rightarrow>
          (case make_server hostname port fd sys of
             Inl e \<Rightarrow> Inl e
           | Inr addr \<Rightarrow> Inr (w\<lparr>listening := Some addr\<rparr>)))"

text \<open>
  \<open>Flask.run(host, port)\<close>. When the environment variable \<open>FLASK_RUN_FROM_CLI\<close> is
  \<open>true\<close> the call returns at once and starts nothing. Otherwise it starts the
  development server on the address given; an argument left out falls back to
  \<open>127.0.0.1\<close> and \<open>5000\<close> (the application's configuration, which app.py never
  sets, names no server).
\<close>

definition run ::
  "flask \<Rightarrow> string option \<Rightarrow> nat option \<Rightarrow> system \<Rightarrow> world \<Rightarrow> error + world" where
  "run a host port sys w =
     (if environ sys ''FLASK_RUN_FROM_CLI'' = Some ''true'' then Inr w
      else
        (let h = (case host of None \<Rightarrow> ''127.0.0.1''
                  | Some x \<Rightarrow> if x = [] then ''127.0.0.1'' else x);
             n = (case port of None \<Rightarrow> 5000 | Some x \<Rightarrow> x)
         in run_simple h n sys w))"

text \<open>
  \<open>flask.render_template(name, **context)\<close>: hands name and context to the templating
  collaborator.
\<close>

definition render_template ::
  "collaborators \<Rightarrow> string \<Rightarrow> (string \<times> string) list \<Rightarrow> world \<Rightarrow> (error + string) \<times> world" where
  "render_template fw name context w =
     (render fw name context, w\<lparr>render_calls := render_calls w @ [(name, context)]\<rparr>)"

section \<open>app.py\<close>

text \<open>Lines 7 to 9, the deployment info: two constants and one reading of the clock.\<close>

definition deployment_info :: "system \<Rightarrow> world \<Rightarrow> module_globals \<times> world" where
  "deployment_info sys w =
     (let (now, w') = datetime_now sys w
      in (\<lparr>DEVOPS_STAGE = ''Stage 1'',
           DEV_NAME = ''Ibrahim Nassar'',
           DEPLOY_DATE = strftime now ''%d/%m/%Y''\<rparr>, w'))"

text \<open>
  \<open>home\<close> has no parameters and reads the three globals when it is called. An
  exception of \<open>render_template\<close> is not caught: it is the result.
\<close>

definition home :: "module_globals \<Rightarrow> collaborators \<Rightarrow> world \<Rightarrow> (error + string) \<times> world" where
  "home g fw w =
     render_template fw ''index.html''
       [(''stage'', DEVOPS_STAGE g),
        (''dev_name'', DEV_NAME g),
        (''deploy_date'', DEPLOY_DATE g)] w"

text \<open>
  A Python function without parameters as a view: called with keyword arguments it
  raises \<open>TypeError\<close>; its string is the view's return value.
\<close>

definition nullary ::
  "(module_globals \<Rightarrow> collaborators \<Rightarrow> world \<Rightarrow> (error + string) \<times> world) \<Rightarrow> view" where
  "nullary f kwargs g fw w =
     (if kwargs = [] then map_prod (map_sum id Str) id (f g fw w) else (Inl TypeError, w))"

text \<open>
  Running the module top to bottom, under the name \<open>name\<close> it was loaded as
  (\<open>__main__\<close> when it is the program, the module's name when it is imported).
  \<open>app.run\<close> does not return while the server runs; the requests answered from then
  on are those of \<open>serve\<close>. Nothing catches an exception of \<open>app.run\<close>: it leaves the
  module and ends the process.
\<close>

definition module_exec :: "string \<Rightarrow> system \<Rightarrow> process" where
  "module_exec name sys =
     (let a0 = Flask name;
          (g, w1) = deployment_info sys world0;
          a1 = route a0 ''/'' None ''home'' (nullary home);
          w2 = (if name = ''__main__''
                then (case run a1 (Some ''0.0.0.0'') (Some 5000) sys w1 of
                        Inl e \<Rightarrow> w1\<lparr>uncaught := Some e\<rparr>
                      | Inr w \<Rightarrow> w)
                else w1)
      in \<lparr>globals = g, app = a1, wld = w2\<rparr>)"

text \<open>The process after it has answered the requests \<open>rs\<close>, in this order.\<close>

definition process_after :: "collaborators \<Rightarrow> string \<Rightarrow> system \<Rightarrow> request list \<Rightarrow> process" where
  "process_after fw name sys rs = snd (serve fw (module_exec name sys) rs)"

section \<open>What the specification says, for comparison\<close>

text \<open>
  The specification's date format, in its own words: zero-padded day, zero-padded
  month, four-digit year, separated by slashes. It does not come from the code; the
  code's \<open>strftime\<close> is compared with it.
\<close>

definition spec_dd_mm_yyyy :: "datetime \<Rightarrow> string" where
  "spec_dd_mm_yyyy t =
     [digit (day t div 10), digit (day t mod 10), CHR ''/'',
      digit (month t div 10), digit (month t mod 10), CHR ''/'',
      digit (year t div 1000), digit (year t div 100 mod 10),
      digit (year t div 10 mod 10), digit (year t mod 10)]"

text \<open>
  Modelled from the spec: the Page Renderer and the template \<open>templates/index.html\<close>
  are not among the sources. Section 4.2 of the specification gives the renderer's
  contract: a template is text with named placeholders; rendering substitutes the
  mapping's values for them, fails with \<open>TemplateNotFound\<close> when the identifier resolves
  to no template and with \<open>TemplateRenderError\<close> when a placeholder is undefined.
\<close>

datatype piece = Text string | Placeholder string

text \<open>
  Modelled from the spec: the substitution the missing renderer performs, text pieces
  copied and each placeholder replaced by the mapping's value for its name.
\<close>

fun substitute :: "(string \<times> string) list \<Rightarrow> piece list \<Rightarrow> error + string" where
  "substitute ctx [] = Inr []"
| "substitute ctx (Text s # ps) =
     (case substitute ctx ps of Inl e \<Rightarrow> Inl e | Inr out \<Rightarrow> Inr (s @ out))"
| "substitute ctx (Placeholder v # ps) =
     (case map_of ctx v of
        None \<Rightarrow> Inl (TemplateRenderError v)
      | Some x \<Rightarrow> (case substitute ctx ps of Inl e \<Rightarrow> Inl e | Inr out \<Rightarrow> Inr (x @ out)))"

text \<open>
  Modelled from the spec: the missing renderer as a whole, over the templates it knows
  (a map from template identifiers to templates).
\<close>

definition template_render ::
  "(string \<Rightarrow> piece list option) \<Rightarrow> string \<Rightarrow> (string \<times> string) list \<Rightarrow> error + string" where
  "template_render templates name ctx =
     (case templates name of
        None \<Rightarrow> Inl (TemplateNotFound name)
      | Some t \<Rightarrow> substitute ctx t)"

text \<open>
  Modelled from the spec: the content of \<open>templates/index.html\<close> is missing. The
  specification says of it that the rendered page contains the three metadata fields,
  substituted into the placeholders \<open>stage\<close>, \<open>dev_name\<close> and \<open>deploy_date\<close>.
\<close>

definition index_html_spec :: "piece list \<Rightarrow> bool" where
  "index_html_spec t =
     (Placeholder ''stage'' \<in> set t \<and> Placeholder ''dev_name'' \<in> set t \<and>
      Placeholder ''deploy_date'' \<in> set t)"

section \<open>Concrete surroundings for the examples\<close>

text \<open>
  A clock that shows 5 April 2024 when first read and a day later at each further
  reading, with every port free and, behind descriptor 3, a socket bound to port 8000
  of \<open>127.0.0.1\<close>; a renderer that knows \<open>index.html\<close> and answers with
  the values it was given; one that knows no template; a static folder that holds the
  file \<open>style.css\<close>; a page built as the specification describes it.
\<close>

definition demo_system :: system where
  "demo_system =
     \<lparr>clock = (\<lambda>k. \<lparr>year = 2024, month = 4, day = 5 + k, hour = 9, minute = 30,
                     second = 0, microsecond = 0\<rparr>),
      environ = Map.empty,
      port_free = (\<lambda>host port. True),
      inherited_socket = (\<lambda>fd. if fd = ''3'' then Inr (''127.0.0.1'', 8000)
                                else Inl (OSError 9))\<rparr>"

definition demo_collaborators :: collaborators where
  "demo_collaborators =
     \<lparr>render = (\<lambda>name ctx. if name = ''index.html'' then Inr (concat (map snd ctx))
                           else Inl (TemplateNotFound name)),
      default_page = (\<lambda>code. ''error''),
      send_static_file = (\<lambda>fn. Inl (HTTPException 404))\<rparr>"



definition demo_page :: "piece list" where
  "demo_page =
     [Text ''<h1>'', Placeholder ''stage'', Text ''</h1><p>'', Placeholder ''dev_name'',
      Text ''</p><p>'', Placeholder ''deploy_date'', Text ''</p>'']"

definition templating_collaborators :: collaborators where
  "templating_collaborators =
     \<lparr>render = template_render [''index.html'' \<mapsto> demo_page],
      default_page = (\<lambda>code. ''error''),
      send_static_file = (\<lambda>fn. Inl (HTTPException 404))\<rparr>"

definition req :: "string \<Rightarrow> string \<Rightarrow> request" where
  "req m p = \<lparr>meth = m, path = p, query_string = [], headers = [], data = []\<rparr>"

text \<open>Shorthands for the statements below.\<close>

abbreviation the_context :: "module_globals \<Rightarrow> (string \<times> string) list" where
  "the_context g \<equiv>
     [(''stage'', DEVOPS_STAGE g), (''dev_name'', DEV_NAME g), (''deploy_date'', DEPLOY_DATE g)]"

abbreviation logged :: "module_globals \<Rightarrow> world \<Rightarrow> world" where
  "logged g w \<equiv> w\<lparr>render_calls := render_calls w @ [(''index.html'', the_context g)]\<rparr>"

abbreviation static_rule :: url_rule where
  "static_rule \<equiv>
     \<lparr>rule_string = ''/static/<path:filename>'', methods = [''GET'', ''OPTIONS'', ''HEAD''],
      endpoint = ''static'', provide_automatic_options = True\<rparr>"

abbreviation root_rule :: url_rule where
  "root_rule \<equiv>
     \<lparr>rule_string = ''/'', methods = [''GET'', ''OPTIONS'', ''HEAD''],
      endpoint = ''home'', provide_automatic_options = True\<rparr>"

section \<open>Auxiliary facts\<close>

subsection \<open>Formatting the date\<close>

lemma str_nat_lt10: "n < 10 \<Longrightarrow> str_nat n = [digit n]"
  by (simp add: str_nat.simps)

lemma digit_is_digit: "is_digit (digit n)"
proof -
  have "n mod 10 < length ''0123456789''"
    by simp
  then have "''0123456789'' ! (n mod 10) \<in> set ''0123456789''"
    by (rule nth_mem)
  then show ?thesis
    by (simp only: digit_def is_digit_def)
qed

lemma digit_0: "digit 0 = CHR ''0''"
  by (simp add: digit_def)

lemma str_nat_lt100: "10 \<le> n \<Longrightarrow> n < 100 \<Longrightarrow> str_nat n = [digit (n div 10), digit (n mod 10)]"
  by (subst str_nat.simps) (simp add: str_nat_lt10)

lemma str_nat_lt1000:
  "100 \<le> n \<Longrightarrow> n < 1000 \<Longrightarrow> str_nat n = [digit (n div 100), digit (n div 10 mod 10), digit (n mod 10)]"
  by (subst str_nat.simps) (simp add: str_nat_lt100 div_mult2_eq[symmetric])

lemma str_nat_lt10000:
  "1000 \<le> n \<Longrightarrow> n < 10000 \<Longrightarrow>
   str_nat n = [digit (n div 1000), digit (n div 100 mod 10), digit (n div 10 mod 10), digit (n mod 10)]"
  by (subst str_nat.simps) (simp add: str_nat_lt1000 div_mult2_eq[symmetric])

lemma replicate_123:
  "replicate 1 x = [x]" "replicate 2 x = [x, x]" "replicate 3 x = [x, x, x]"
  by (simp_all add: numeral_2_eq_2 numeral_3_eq_3)

lemma zfill2: "n < 100 \<Longrightarrow> zfill 2 (str_nat n) = [digit (n div 10), digit (n mod 10)]"
proof (cases "n < 10")
  case True
  then show ?thesis by (simp add: zfill_def str_nat_lt10 digit_0)
next
  case False
  assume "n < 100"
  with False show ?thesis by (simp add: zfill_def str_nat_lt100)
qed

lemma days_in_month_le: "days_in_month y m \<le> 31"
  by (simp add: days_in_month_def)

lemma strftime_valid:
  assumes "valid_datetime t" and "1000 \<le> year t"
  shows "strftime t ''%d/%m/%Y'' =
         [digit (day t div 10), digit (day t mod 10), CHR ''/'',
          digit (month t div 10), digit (month t mod 10), CHR ''/'',
          digit (year t div 1000), digit (year t div 100 mod 10),
          digit (year t div 10 mod 10), digit (year t mod 10)]"
proof -
  from assms have d: "day t < 100"
    using days_in_month_le [of "year t" "month t"] by (simp add: valid_datetime_def)
  from assms have m: "month t < 100" and y: "year t < 10000"
    by (simp_all add: valid_datetime_def)
  show ?thesis
    by (simp add: directive_def zfill2 [OF d] zfill2 [OF m] str_nat_lt10000 [OF assms(2) y])
qed

lemma date_pattern_valid:
  "valid_datetime t \<Longrightarrow> 1000 \<le> year t \<Longrightarrow> date_pattern (strftime t ''%d/%m/%Y'')"
  by (simp only: strftime_valid) (simp add: date_pattern_def digit_is_digit)

subsection \<open>The module and its URL map\<close>

lemma upper_GET: "upper ''GET'' = ''GET''" "upper ''HEAD'' = ''HEAD''" "upper ''OPTIONS'' = ''OPTIONS''" "upper ''get'' = ''GET''"
  by (simp_all add: upper_def upper_char_def)

lemma app_module_exec:
  "app (module_exec name sys) = route (Flask name) ''/'' None ''home'' (nullary home)"
  by (simp add: module_exec_def Let_def split: prod.splits)

lemma globals_module_exec: "globals (module_exec name sys) = fst (deployment_info sys world0)"
  by (simp add: module_exec_def Let_def split: prod.splits)

lemma deployment_info_eq:
  "deployment_info sys w =
     (\<lparr>DEVOPS_STAGE = ''Stage 1'', DEV_NAME = ''Ibrahim Nassar'',
       DEPLOY_DATE = strftime (clock sys (clock_reads w)) ''%d/%m/%Y''\<rparr>,
      w\<lparr>clock_reads := Suc (clock_reads w)\<rparr>)"
  by (simp add: deployment_info_def datetime_now_def)

lemma url_map_route_Flask:
  "url_map (route (Flask name) ''/'' None ''home'' f) = [static_rule, root_rule]"
  by (simp add: route_def Flask_def add_url_rule_def)

lemma view_functions_route_Flask:
  "view_functions (route (Flask name) ''/'' None ''home'' f) ''home'' = Some f"
  by (simp add: route_def Flask_def add_url_rule_def)

lemma error_handler_spec_route_Flask:
  "error_handler_spec (route (Flask name) ''/'' None ''home'' f) = Map.empty"
  by (simp add: route_def Flask_def add_url_rule_def)

lemma match_rule_root: "match_rule ''/'' p = (if p = ''/'' then Some [] else None)"
  by (simp add: match_rule_def)

lemma match_rule_static:
  "\<not> starts_with ''/static/'' p \<Longrightarrow> match_rule ''/static/<path:filename>'' p = None"
  by (simp add: match_rule_def)


lemma merge_slashes_nonslash [simp]:
  "a \<noteq> CHR ''/'' \<Longrightarrow> merge_slashes (a # xs) = a # merge_slashes xs"
  by (cases xs) simp_all








lemma find_rule_root:
  "find_rule [static_rule, root_rule] ''/'' m seen =
     (if m \<in> set [''GET'', ''OPTIONS'', ''HEAD''] then Match root_rule [] else MethodNotAllowed)"
  by (simp add: match_rule_root match_rule_static)

lemma url_match_root:
  assumes "path_part p = ''/''"
  shows "url_match [static_rule, root_rule] p m =
     (if m \<in> set [''GET'', ''OPTIONS'', ''HEAD''] then Match root_rule [] else MethodNotAllowed)"
  using assms by (simp add: url_match_def find_rule_root slash_required_def Let_def del: find_rule.simps)


subsection \<open>What serving a request changes\<close>

lemma home_eq: "home g fw w = (render fw ''index.html'' (the_context g), logged g w)"
  by (simp add: home_def render_template_def)

lemma find_rule_Match: "find_rule rs p m seen = Match r args \<Longrightarrow> r \<in> set rs"
  by (induction rs arbitrary: seen) (auto split: option.splits if_splits)

lemma url_match_Match: "url_match rs p m = Match r args \<Longrightarrow> r \<in> set rs"
  by (auto simp: url_match_def Let_def dest: find_rule_Match split: match_result.splits if_splits)

lemma view_functions_static:
  "view_functions (route (Flask name) ''/'' None ''home'' f) ''static'' = Some static_view"
  by (simp add: route_def Flask_def add_url_rule_def)

lemma static_view_world: "snd (static_view kwargs g fw w) = w"
  by (simp add: static_view_def split: option.splits)

lemma nullary_home_world:
  "snd (nullary home kwargs g fw w) = w \<or> snd (nullary home kwargs g fw w) = logged g w"
  by (simp add: nullary_def home_eq)

lemma dispatch_world:
  assumes "a = route (Flask name) ''/'' None ''home'' (nullary home)"
  shows "snd (dispatch_request a g fw r w) = w \<or> snd (dispatch_request a g fw r w) = logged g w"
proof (cases "url_match (url_map a) (path r) (meth r)")
  case (Match u args)
  then have "u \<in> set (url_map a)" by (rule url_match_Match)
  then have u: "u = static_rule \<or> u = root_rule"
    by (simp add: assms url_map_route_Flask)
  then show ?thesis
  proof
    assume "u = static_rule"
    then show ?thesis
      using Match by (simp add: dispatch_request_def assms view_functions_static static_view_world)
  next
    assume "u = root_rule"
    then show ?thesis
      using Match nullary_home_world [of args g fw w]
      by (auto simp: dispatch_request_def assms view_functions_route_Flask)
  qed
qed (simp_all add: dispatch_request_def)

lemma wsgi_app_fields:
  "globals (snd (wsgi_app fw p r)) = globals p" "app (snd (wsgi_app fw p r)) = app p"
  by (simp_all add: wsgi_app_def Let_def split: prod.splits)

lemma wsgi_app_world:
  assumes "app p = route (Flask name) ''/'' None ''home'' (nullary home)"
  shows "wld (snd (wsgi_app fw p r)) = wld p \<or> wld (snd (wsgi_app fw p r)) = logged (globals p) (wld p)"
proof -
  let ?r = "r\<lparr>meth := upper (meth r)\<rparr>"
  have "wld (snd (wsgi_app fw p r)) = snd (dispatch_request (app p) (globals p) fw ?r (wld p))"
    by (simp add: wsgi_app_def full_dispatch_request_def Let_def split: prod.splits sum.splits)
  then show ?thesis
    using dispatch_world [OF assms, of "globals p" fw ?r "wld p"] by (simp add: assms)
qed

lemma serve_Cons: "snd (serve fw p (r # rs)) = snd (serve fw (snd (wsgi_app fw p r)) rs)"
  by (simp add: Let_def split: prod.splits)

lemma serve_globals: "globals (snd (serve fw p rs)) = globals p"
proof (induction rs arbitrary: p)
  case Nil
  show ?case by simp
next
  case (Cons r rs)
  show ?case by (simp only: serve_Cons Cons.IH wsgi_app_fields)
qed

lemma serve_app: "app (snd (serve fw p rs)) = app p"
proof (induction rs arbitrary: p)
  case Nil
  show ?case by simp
next
  case (Cons r rs)
  show ?case by (simp only: serve_Cons Cons.IH wsgi_app_fields)
qed

lemma wsgi_app_clock_listening:
  assumes "app p = route (Flask name) ''/'' None ''home'' (nullary home)"
  shows "clock_reads (wld (snd (wsgi_app fw p r))) = clock_reads (wld p)"
    and "listening (wld (snd (wsgi_app fw p r))) = listening (wld p)"
  using wsgi_app_world [OF assms, of fw r] by auto

lemma serve_clock_listening:
  assumes "app p = route (Flask name) ''/'' None ''home'' (nullary home)"
  shows "clock_reads (wld (snd (serve fw p rs))) = clock_reads (wld p) \<and>
         listening (wld (snd (serve fw p rs))) = listening (wld p)"
  using assms
proof (induction rs arbitrary: p)
  case Nil
  show ?case by simp
next
  case (Cons r rs)
  have a1: "app (snd (wsgi_app fw p r)) = route (Flask name) ''/'' None ''home'' (nullary home)"
    using Cons.prems by (simp add: wsgi_app_fields)
  show ?case
    by (simp only: serve_Cons Cons.IH [OF a1] wsgi_app_clock_listening [OF Cons.prems])
qed

lemma serve_render_calls:
  assumes "app p = route (Flask name) ''/'' None ''home'' (nullary home)"
  shows "\<exists>k. render_calls (wld (snd (serve fw p rs))) =
              render_calls (wld p) @ replicate k (''index.html'', the_context (globals p))"
  using assms
proof (induction rs arbitrary: p)
  case Nil
  show ?case by (rule exI [of _ 0]) simp
next
  case (Cons r rs)
  let ?p1 = "snd (wsgi_app fw p r)"
  have a1: "app ?p1 = route (Flask name) ''/'' None ''home'' (nullary home)"
    using Cons.prems by (simp add: wsgi_app_fields)
  have "\<exists>k. render_calls (wld (snd (serve fw ?p1 rs))) =
        render_calls (wld ?p1) @ replicate k (''index.html'', the_context (globals p))"
    using Cons.IH [OF a1] by (simp only: wsgi_app_fields)
  then obtain k where
    k: "render_calls (wld (snd (serve fw ?p1 rs))) =
        render_calls (wld ?p1) @ replicate k (''index.html'', the_context (globals p))"
    by (rule exE)
  from wsgi_app_world [OF Cons.prems, of fw r]
  show ?case
  proof (rule disjE)
    assume w: "wld ?p1 = wld p"
    show ?thesis
      by (rule exI [of _ k]) (simp only: serve_Cons k w)
  next
    assume w: "wld ?p1 = logged (globals p) (wld p)"
    show ?thesis
      by (rule exI [of _ "Suc k"]) (simp add: serve_Cons k w del: serve.simps)
  qed
qed

subsection \<open>The process during its lifetime\<close>

lemma app_process_after:
  "app (process_after fw name sys rs) = route (Flask name) ''/'' None ''home'' (nullary home)"
  by (simp add: process_after_def serve_app app_module_exec)

lemma globals_process_after:
  "globals (process_after fw name sys rs) = globals (module_exec name sys)"
  by (simp add: process_after_def serve_globals)

lemma globals_module_exec_eq:
  "globals (module_exec name sys) =
     \<lparr>DEVOPS_STAGE = ''Stage 1'', DEV_NAME = ''Ibrahim Nassar'',
      DEPLOY_DATE = strftime (clock sys 0) ''%d/%m/%Y''\<rparr>"
  by (simp add: globals_module_exec deployment_info_eq world0_def del: strftime.simps)

lemma wld_module_exec_eq:
  "wld (module_exec name sys) =
     (if name = ''__main__'' \<and> environ sys ''FLASK_RUN_FROM_CLI'' \<noteq> Some ''true''
      then (case run_simple ''0.0.0.0'' 5000 sys
                   \<lparr>clock_reads = 1, render_calls = [], listening = None, uncaught = None\<rparr> of
              Inl e \<Rightarrow> \<lparr>clock_reads = 1, render_calls = [], listening = None, uncaught = Some e\<rparr>
            | Inr w \<Rightarrow> w)
      else \<lparr>clock_reads = 1, render_calls = [], listening = None, uncaught = None\<rparr>)"
  by (simp add: module_exec_def deployment_info_eq world0_def run_def Let_def split: sum.splits)



lemma run_simple_clock_render:
  "run_simple h n sys w = Inr w' \<Longrightarrow>
     clock_reads w' = clock_reads w \<and> render_calls w' = render_calls w \<and> uncaught w' = uncaught w"
  by (auto simp add: run_simple_def split: sum.splits if_splits option.splits)

lemma clock_reads_module_exec: "clock_reads (wld (module_exec name sys)) = 1"
  by (auto simp add: wld_module_exec_eq split: sum.splits dest: run_simple_clock_render)

lemma render_calls_module_exec: "render_calls (wld (module_exec name sys)) = []"
  by (auto simp add: wld_module_exec_eq split: sum.splits dest: run_simple_clock_render)

lemma listening_module_exec:
  "listening (wld (module_exec name sys)) =
     (if name = ''__main__'' \<and> environ sys ''FLASK_RUN_FROM_CLI'' \<noteq> Some ''true''
      then (if environ sys ''WERKZEUG_RUN_MAIN'' \<noteq> Some ''true''
            then (if port_free sys ''0.0.0.0'' 5000 then Some (''0.0.0.0'', 5000) else None)
            else (case environ sys ''WERKZEUG_SERVER_FD'' of
                    None \<Rightarrow> None
                  | Some d \<Rightarrow> (case inherited_socket sys d of
                                Inl e \<Rightarrow> None
                              | Inr addr \<Rightarrow> Some addr)))
      else None)"
  by (simp add: wld_module_exec_eq run_simple_def make_server_def is_running_from_reloader_def
      split: sum.splits option.splits)

lemma uncaught_module_exec:
  "uncaught (wld (module_exec name sys)) =
     (if name = ''__main__'' \<and> environ sys ''FLASK_RUN_FROM_CLI'' \<noteq> Some ''true''
      then (if environ sys ''WERKZEUG_RUN_MAIN'' \<noteq> Some ''true''
            then (if port_free sys ''0.0.0.0'' 5000 then None else Some (SystemExit 1))
            else (case environ sys ''WERKZEUG_SERVER_FD'' of
                    None \<Rightarrow> Some (KeyError ''WERKZEUG_SERVER_FD'')
                  | Some d \<Rightarrow> (case inherited_socket sys d of
                                Inl e \<Rightarrow> Some e
                              | Inr addr \<Rightarrow> None)))
      else None)"
  by (simp add: wld_module_exec_eq run_simple_def make_server_def is_running_from_reloader_def
      split: sum.splits option.splits)

lemma clock_listening_process_after:
  "clock_reads (wld (process_after fw name sys rs)) = 1"
  "listening (wld (process_after fw name sys rs)) = listening (wld (module_exec name sys))"
  using serve_clock_listening [OF app_module_exec, of fw name sys rs]
  by (simp_all add: process_after_def clock_reads_module_exec)

lemma render_calls_process_after:
  "\<exists>k. render_calls (wld (process_after fw name sys rs)) =
        replicate k (''index.html'', the_context (globals (module_exec name sys)))"
  using serve_render_calls [OF app_module_exec, of fw name sys rs]
  by (simp add: process_after_def render_calls_module_exec)

lemma path_part_root: "path_part ''/'' = ''/''"
  by (simp add: path_part_def)

lemma dispatch_get_root:
  assumes "a = route (Flask name) ''/'' None ''home'' (nullary home)"
    and "meth r = ''GET'' \<or> meth r = ''HEAD''" and "path r = ''/''"
  shows "dispatch_request a g fw r w =
           (map_sum id Str (render fw ''index.html'' (the_context g)), logged g w)"
  using assms(2,3)
  by (auto simp: dispatch_request_def assms(1) url_map_route_Flask url_match_root path_part_root
      view_functions_route_Flask nullary_def home_eq)

lemma wsgi_app_get_root:
  assumes "app p = route (Flask name) ''/'' None ''home'' (nullary home)"
    and "meth r = ''GET''" and "path r = ''/''"
  shows "wsgi_app fw p r =
           (case render fw ''index.html'' (the_context (globals p)) of
              Inl e \<Rightarrow> handle_user_exception (app p) fw e
            | Inr html \<Rightarrow> \<lparr>status = 200, mimetype = ''text/html'', body = html\<rparr>,
            p\<lparr>wld := logged (globals p) (wld p)\<rparr>)"
proof -
  let ?r = "r\<lparr>meth := ''GET''\<rparr>"
  have d: "dispatch_request (app p) (globals p) fw ?r (wld p) =
           (map_sum id Str (render fw ''index.html'' (the_context (globals p))), logged (globals p) (wld p))"
    by (rule dispatch_get_root [OF assms(1)]) (simp_all add: assms(3))
  show ?thesis
    by (simp add: wsgi_app_def full_dispatch_request_def assms(2) upper_GET d make_response_def
        Let_def split: sum.splits)
qed

lemma handle_template_error:
  assumes "error_handler_spec a = Map.empty" and "e = TemplateNotFound n \<or> e = TemplateRenderError n"
  shows "handle_user_exception a fw e = default_response fw 500"
  using assms by (auto simp: handle_user_exception_def)

lemma error_handler_spec_process_after:
  "error_handler_spec (app (process_after fw name sys rs)) = Map.empty"
  by (simp add: app_process_after error_handler_spec_route_Flask)

lemma demo_date: "strftime (clock demo_system 0) ''%d/%m/%Y'' = ''05/04/2024''"
  by (simp add: demo_system_def directive_def zfill_def str_nat.simps digit_def replicate_123)

subsection \<open>Requests to the root path and elsewhere\<close>

lemma the_context_module_exec:
  "the_context (globals (module_exec name sys)) =
     [(''stage'', ''Stage 1''), (''dev_name'', ''Ibrahim Nassar''),
      (''deploy_date'', strftime (clock sys 0) ''%d/%m/%Y'')]"
  by (simp add: globals_module_exec_eq del: strftime.simps)

lemma wsgi_app_get_root_process:
  assumes "meth r = ''GET''" and "path r = ''/''"
  shows "wsgi_app fw (process_after fw name sys rs) r =
           (case render fw ''index.html'' (the_context (globals (module_exec name sys))) of
              Inl e \<Rightarrow> handle_user_exception (app (process_after fw name sys rs)) fw e
            | Inr html \<Rightarrow> \<lparr>status = 200, mimetype = ''text/html'', body = html\<rparr>,
            (process_after fw name sys rs)
              \<lparr>wld := logged (globals (module_exec name sys)) (wld (process_after fw name sys rs))\<rparr>)"
  using wsgi_app_get_root [OF app_process_after assms, where fw1 = fw and fw = fw]
  by (simp only: globals_process_after)




subsection \<open>Substitution into a template\<close>

lemma starts_with_append: "starts_with x (x @ b)"
  by (induction x) simp_all

lemma contains_prefix: "contains x (x @ b)"
proof (cases "x @ b")
  case Nil
  then show ?thesis by simp
next
  case (Cons c cs)
  have "starts_with x (x @ b)" by (rule starts_with_append)
  with Cons show ?thesis by simp
qed

lemma contains_append_left: "contains x b \<Longrightarrow> contains x (a @ b)"
  by (induction a) simp_all

lemma substitute_contains:
  "substitute ctx t = Inr out \<Longrightarrow> Placeholder v \<in> set t \<Longrightarrow> map_of ctx v = Some x \<Longrightarrow>
   contains x out"
proof (induction ctx t arbitrary: out rule: substitute.induct)
  case (1 ctx)
  then show ?case by simp
next
  case (2 ctx s ps)
  from "2.prems"(1) obtain out' where o: "substitute ctx ps = Inr out'" "out = s @ out'"
    by (auto split: sum.splits)
  from "2.prems"(2) have "Placeholder v \<in> set ps" by simp
  from "2.IH" [OF o(1) this "2.prems"(3)] show ?case
    by (simp add: o(2) contains_append_left)
next
  case (3 ctx u ps)
  from "3.prems"(1) obtain y out' where
    o: "map_of ctx u = Some y" "substitute ctx ps = Inr out'" "out = y @ out'"
    by (auto split: option.splits sum.splits)
  show ?case
  proof (cases "u = v")
    case True
    with o(1) "3.prems"(3) have "y = x" by simp
    then show ?thesis by (simp add: o(3) contains_prefix)
  next
    case False
    with "3.prems"(2) have "Placeholder v \<in> set ps" by simp
    from "3.IH" [OF o(1) o(2) this "3.prems"(3)] show ?thesis
      by (simp add: o(3) contains_append_left)
  qed
qed

lemma substitute_error: "substitute ctx t = Inl e \<Longrightarrow> \<exists>v. e = TemplateRenderError v"
  by (induction ctx t rule: substitute.induct) (auto split: option.splits sum.splits)




section \<open>The claims\<close>

subsection \<open>The deployment info\<close>

text \<open>
  Claim C2. At process start the deployment info is computed: the stage is the string
  \<open>Stage 1\<close>, the developer name the string \<open>Ibrahim Nassar\<close>, and the deploy date the
  local date of the clock reading made at start, written as the specification words it
  (\<open>spec_dd_mm_yyyy\<close>: two digits of the day, two of the month, four of the year,
  slashes between). The year of that reading has four digits, as every year from 1000
  on has. The values depend on nothing but that clock reading (not on the name the
  module runs under), the clock is read once, and the three assignments have no other
  effect.
\<close>

theorem deployment_info_at_start:
  assumes "valid_datetime (clock sys 0)" and "1000 \<le> year (clock sys 0)"
  shows "globals (module_exec name sys) =
           \<lparr>DEVOPS_STAGE = ''Stage 1'', DEV_NAME = ''Ibrahim Nassar'',
            DEPLOY_DATE = spec_dd_mm_yyyy (clock sys 0)\<rparr> \<and>
         date_pattern (DEPLOY_DATE (globals (module_exec name sys))) \<and>
         clock_reads (wld (module_exec name sys)) = 1 \<and>
         render_calls (wld (module_exec name sys)) = [] \<and>
         snd (deployment_info sys w) = w\<lparr>clock_reads := Suc (clock_reads w)\<rparr>"
proof -
  have "strftime (clock sys 0) ''%d/%m/%Y'' = spec_dd_mm_yyyy (clock sys 0)"
    unfolding spec_dd_mm_yyyy_def by (rule strftime_valid [OF assms])
  moreover have "date_pattern (strftime (clock sys 0) ''%d/%m/%Y'')"
    by (rule date_pattern_valid [OF assms])
  ultimately show ?thesis
    by (simp add: globals_module_exec_eq clock_reads_module_exec render_calls_module_exec
        deployment_info_eq del: strftime.simps)
qed

theorem deployment_info_at_start_witness:
  "valid_datetime (clock demo_system 0) \<and> 1000 \<le> year (clock demo_system 0) \<and>
   globals (module_exec ''__main__'' demo_system) =
     \<lparr>DEVOPS_STAGE = ''Stage 1'', DEV_NAME = ''Ibrahim Nassar'', DEPLOY_DATE = ''05/04/2024''\<rparr> \<and>
   clock_reads (wld (module_exec ''__main__'' demo_system)) = 1"
proof -
  have v: "valid_datetime (clock demo_system 0)"
    by (simp add: demo_system_def valid_datetime_def days_in_month_def)
  have y: "1000 \<le> year (clock demo_system 0)"
    by (simp add: demo_system_def)
  have "spec_dd_mm_yyyy (clock demo_system 0) = ''05/04/2024''"
    by (simp add: spec_dd_mm_yyyy_def demo_system_def digit_def)
  with v y deployment_info_at_start [OF v y, of "''__main__''"] show ?thesis
    by simp
qed

text \<open>
  Claim C3. The deployment info is computed once, at process start: whatever requests
  the process has served, its globals are those of the start, the deploy date is the one
  formatted from the first clock reading, the clock has been read exactly once, and
  every call made to the renderer carried the same mapping, with that deploy date.
\<close>

theorem deployment_info_computed_once:
  "globals (process_after fw name sys rs) = globals (module_exec name sys) \<and>
   DEPLOY_DATE (globals (process_after fw name sys rs)) = strftime (clock sys 0) ''%d/%m/%Y'' \<and>
   clock_reads (wld (process_after fw name sys rs)) = 1 \<and>
   (\<forall>c \<in> set (render_calls (wld (process_after fw name sys rs))).
      c = (''index.html'',
           [(''stage'', ''Stage 1''), (''dev_name'', ''Ibrahim Nassar''),
            (''deploy_date'', strftime (clock sys 0) ''%d/%m/%Y'')]))"
proof -
  obtain k where "render_calls (wld (process_after fw name sys rs)) =
      replicate k (''index.html'', the_context (globals (module_exec name sys)))"
    using render_calls_process_after by blast
  then have "\<forall>c \<in> set (render_calls (wld (process_after fw name sys rs))).
      c = (''index.html'', the_context (globals (module_exec name sys)))"
    by simp
  then show ?thesis
    by (simp add: globals_process_after clock_listening_process_after the_context_module_exec
        globals_module_exec_eq del: strftime.simps)
qed

theorem deployment_info_computed_once_witness:
  "clock_reads (wld (process_after demo_collaborators ''app'' demo_system
       [req ''GET'' ''/'', req ''GET'' ''/about'', req ''GET'' ''/''])) = 1 \<and>
   DEPLOY_DATE (globals (process_after demo_collaborators ''app'' demo_system
       [req ''GET'' ''/'', req ''GET'' ''/about'', req ''GET'' ''/''])) = ''05/04/2024'' \<and>
   set (render_calls (wld (process_after demo_collaborators ''app'' demo_system
       [req ''GET'' ''/'', req ''GET'' ''/about'', req ''GET'' ''/'']))) \<subseteq>
     {(''index.html'',
       [(''stage'', ''Stage 1''), (''dev_name'', ''Ibrahim Nassar''),
        (''deploy_date'', ''05/04/2024'')])}"
  using deployment_info_computed_once [of demo_collaborators "''app''" demo_system
      "[req ''GET'' ''/'', req ''GET'' ''/about'', req ''GET'' ''/'']"]
  by (auto simp: demo_date simp del: strftime.simps)

subsection \<open>The route handler\<close>









text \<open>
  Claim C8. With the renderer and the page as the specification describes them, and a
  process started in a year of four digits, every response with status 200 to a
  \<open>GET\<close> request for \<open>/\<close> has a body that contains \<open>Stage 1\<close>,
  \<open>Ibrahim Nassar\<close> and the deploy date, which has the shape \<open>DD/MM/YYYY\<close>.
\<close>

theorem rendered_body_contains_deployment_info:
  assumes "render fw = template_render templates"
    and "templates ''index.html'' = Some t" and "index_html_spec t"
    and "valid_datetime (clock sys 0)" and "1000 \<le> year (clock sys 0)"
    and "meth r = ''GET''" and "path r = ''/''"
    and "status (fst (wsgi_app fw (process_after fw name sys rs) r)) = 200"
  shows "contains ''Stage 1'' (body (fst (wsgi_app fw (process_after fw name sys rs) r))) \<and>
         contains ''Ibrahim Nassar'' (body (fst (wsgi_app fw (process_after fw name sys rs) r))) \<and>
         date_pattern (spec_dd_mm_yyyy (clock sys 0)) \<and>
         contains (spec_dd_mm_yyyy (clock sys 0))
           (body (fst (wsgi_app fw (process_after fw name sys rs) r)))"
proof -
  let ?ctx = "the_context (globals (module_exec name sys))"
  let ?resp = "fst (wsgi_app fw (process_after fw name sys rs) r)"
  have d: "strftime (clock sys 0) ''%d/%m/%Y'' = spec_dd_mm_yyyy (clock sys 0)"
    unfolding spec_dd_mm_yyyy_def by (rule strftime_valid [OF assms(4,5)])
  have dp: "date_pattern (spec_dd_mm_yyyy (clock sys 0))"
    using date_pattern_valid [OF assms(4,5)] by (simp only: d)
  have resp: "?resp = (case render fw ''index.html'' ?ctx of
              Inl e \<Rightarrow> handle_user_exception (app (process_after fw name sys rs)) fw e
            | Inr html \<Rightarrow> \<lparr>status = 200, mimetype = ''text/html'', body = html\<rparr>)"
    by (simp add: wsgi_app_get_root_process [OF assms(6,7)])
  have rd: "render fw ''index.html'' ?ctx = substitute ?ctx t"
    by (simp add: assms(1,2) template_render_def)
  obtain html where html: "substitute ?ctx t = Inr html" and b: "body ?resp = html"
  proof (cases "substitute ?ctx t")
    case (Inl e)
    then obtain v where "e = TemplateRenderError v"
      using substitute_error by blast
    then have "handle_user_exception (app (process_after fw name sys rs)) fw e =
               default_response fw 500"
      by (simp add: handle_template_error [OF error_handler_spec_process_after])
    with resp rd Inl have "status ?resp = 500"
      by (simp add: default_response_def)
    with assms(8) show ?thesis by simp
  next
    case (Inr html)
    with resp rd that show ?thesis by simp
  qed
  have c: "map_of ?ctx ''stage'' = Some ''Stage 1''"
    "map_of ?ctx ''dev_name'' = Some ''Ibrahim Nassar''"
    "map_of ?ctx ''deploy_date'' = Some (spec_dd_mm_yyyy (clock sys 0))"
    by (simp_all add: globals_module_exec_eq d del: strftime.simps)
  from assms(3) have p: "Placeholder ''stage'' \<in> set t" "Placeholder ''dev_name'' \<in> set t"
    "Placeholder ''deploy_date'' \<in> set t"
    by (simp_all add: index_html_spec_def)
  show ?thesis
    using substitute_contains [OF html p(1) c(1)] substitute_contains [OF html p(2) c(2)]
      substitute_contains [OF html p(3) c(3)] dp
    by (simp add: b)
qed

theorem rendered_body_contains_deployment_info_witness:
  "contains ''Stage 1''
     (body (fst (wsgi_app templating_collaborators
        (process_after templating_collaborators ''__main__'' demo_system []) (req ''GET'' ''/'')))) \<and>
   contains ''Ibrahim Nassar''
     (body (fst (wsgi_app templating_collaborators
        (process_after templating_collaborators ''__main__'' demo_system []) (req ''GET'' ''/'')))) \<and>
   contains ''05/04/2024''
     (body (fst (wsgi_app templating_collaborators
        (process_after templating_collaborators ''__main__'' demo_system []) (req ''GET'' ''/'')))) \<and>
   date_pattern ''05/04/2024''"
proof -
  let ?fw = templating_collaborators
  let ?resp = "fst (wsgi_app ?fw (process_after ?fw ''__main__'' demo_system []) (req ''GET'' ''/''))"
  have r: "render ?fw = template_render [''index.html'' \<mapsto> demo_page]"
    by (simp add: templating_collaborators_def)
  have t: "[''index.html'' \<mapsto> demo_page] ''index.html'' = Some demo_page"
    by simp
  have i: "index_html_spec demo_page"
    by (simp add: index_html_spec_def demo_page_def)
  have v: "valid_datetime (clock demo_system 0)"
    by (simp add: demo_system_def valid_datetime_def days_in_month_def)
  have y: "1000 \<le> year (clock demo_system 0)"
    by (simp add: demo_system_def)
  have m: "meth (req ''GET'' ''/'') = ''GET''" "path (req ''GET'' ''/'') = ''/''"
    by (simp_all add: req_def)
  have "render ?fw ''index.html'' (the_context (globals (module_exec ''__main__'' demo_system))) =
        Inr ''<h1>Stage 1</h1><p>Ibrahim Nassar</p><p>05/04/2024</p>''"
    by (simp add: r template_render_def demo_page_def globals_module_exec_eq demo_date
        del: strftime.simps)
  then have s: "status ?resp = 200"
    by (simp add: wsgi_app_get_root_process [OF m])
  have d: "spec_dd_mm_yyyy (clock demo_system 0) = ''05/04/2024''"
    by (simp add: spec_dd_mm_yyyy_def demo_system_def digit_def)
  from rendered_body_contains_deployment_info [OF r t i v y m s] show ?thesis
    by (simp only: d)
qed

subsection \<open>Other methods and other paths\<close>




subsection \<open>The server bootstrap\<close>




text \<open>
  Claim C10. Imported under a name other than \<open>__main__\<close>, the module never gets to the
  server bootstrap: the process listens nowhere and nothing fails, so a listening
  server means the module ran as the main program. There the call is made, and the
  server listens on \<open>0.0.0.0\<close>, port 5000, if neither \<open>FLASK_RUN_FROM_CLI\<close> nor
  \<open>WERKZEUG_RUN_MAIN\<close> is \<open>true\<close> and the address can be bound. Under every name the
  three constants are set, the rule \<open>/\<close> is in the URL map and \<open>home\<close> is registered as
  its view.
\<close>

theorem import_does_not_start_server:
  "(name \<noteq> ''__main__'' \<longrightarrow>
      listening (wld (module_exec name sys)) = None \<and> uncaught (wld (module_exec name sys)) = None) \<and>
   (name = ''__main__'' \<and> environ sys ''FLASK_RUN_FROM_CLI'' \<noteq> Some ''true'' \<and>
    environ sys ''WERKZEUG_RUN_MAIN'' \<noteq> Some ''true'' \<and> port_free sys ''0.0.0.0'' 5000 \<longrightarrow>
      listening (wld (module_exec name sys)) = Some (''0.0.0.0'', 5000)) \<and>
   globals (module_exec name sys) =
     \<lparr>DEVOPS_STAGE = ''Stage 1'', DEV_NAME = ''Ibrahim Nassar'',
      DEPLOY_DATE = strftime (clock sys 0) ''%d/%m/%Y''\<rparr> \<and>
   url_map (app (module_exec name sys)) = [static_rule, root_rule] \<and>
   view_functions (app (module_exec name sys)) ''home'' = Some (nullary home)"
  by (simp add: listening_module_exec uncaught_module_exec globals_module_exec_eq app_module_exec
      url_map_route_Flask view_functions_route_Flask del: strftime.simps)

theorem import_does_not_start_server_witness:
  "listening (wld (module_exec ''app'' demo_system)) = None \<and>
   listening (wld (module_exec ''__main__'' demo_system)) = Some (''0.0.0.0'', 5000) \<and>
   DEPLOY_DATE (globals (module_exec ''app'' demo_system)) = ''05/04/2024'' \<and>
   map rule_string (url_map (app (module_exec ''app'' demo_system))) =
     [''/static/<path:filename>'', ''/'']"
proof -
  have e: "environ demo_system ''FLASK_RUN_FROM_CLI'' \<noteq> Some ''true''"
    and m: "environ demo_system ''WERKZEUG_RUN_MAIN'' \<noteq> Some ''true''"
    and f: "port_free demo_system ''0.0.0.0'' 5000"
    by (simp_all add: demo_system_def)
  have n: "''app'' \<noteq> ''__main__''"
    by simp
  from import_does_not_start_server [of "''app''" demo_system] n
  have 1: "listening (wld (module_exec ''app'' demo_system)) = None"
    and 3: "globals (module_exec ''app'' demo_system) =
      \<lparr>DEVOPS_STAGE = ''Stage 1'', DEV_NAME = ''Ibrahim Nassar'',
       DEPLOY_DATE = strftime (clock demo_system 0) ''%d/%m/%Y''\<rparr>"
    and 4: "url_map (app (module_exec ''app'' demo_system)) = [static_rule, root_rule]"
    by blast+
  from import_does_not_start_server [of "''__main__''" demo_system] e m f
  have 2: "listening (wld (module_exec ''__main__'' demo_system)) = Some (''0.0.0.0'', 5000)"
    by blast
  show ?thesis
    by (simp add: 1 2 3 4 demo_date del: strftime.simps)
qed

end
